theory Spec2Isabelle
  imports Complex_Main
begin

section \<open>The SLI fox-rabies dashboard: model, integration call and chart\<close>

text \<open>
  The computational core of \<^verbatim>\<open>src/app.py\<close> is the function \<^verbatim>\<open>ode_sys\<close>
  (the right-hand side of the three-compartment model) and the Dash callback
  \<^verbatim>\<open>gera_grafico\<close>, which builds a time grid, calls \<^verbatim>\<open>scipy.integrate.odeint\<close>
  and packs the solution into a plotly figure.

  Conventions of the embedding.
  \<^item> Python numbers are idealised as \<open>real\<close>: arithmetic is exact, so rounding,
    overflow and NaN are outside the model.
  \<^item> A Python sequence of numbers (list, tuple, one-dimensional array) is a
    \<open>real list\<close>; a two-dimensional array is the list of its rows.
  \<^item> An exception is a value \<open>Inl e\<close> of the sum type \<open>error + 'a\<close>.
\<close>

subsection \<open>Exceptions\<close>

text \<open>
  \<open>ValueError\<close> is what Python raises when a sequence is unpacked into the wrong
  number of names, \<open>ZeroDivisionError\<close> what the division of two Python numbers
  raises for a zero divisor. \<open>LibraryError\<close> stands for any exception that the
  integration routine raises on its own account.
\<close>

datatype error = ValueError | ZeroDivisionError | LibraryError

subsection \<open>The model: \<^verbatim>\<open>ode_sys\<close> (lines 161--166)\<close>

text \<open>
  \<^verbatim>\<open>
  def ode_sys(state, t, a, beta, mu, alpha, sigma, K):
      s, l, i=state
      ds_dt=(a-mu)*s-((a-mu)/K)*s*(s+i+l)-beta*s*i
      di_dt=beta*s*i-(sigma+mu+((a-mu)/K)*(s+l+i))*l
      dl_dt=sigma*l-(alpha+mu+((a-mu)/K)*(s+l+i))*i
      return [ds_dt, di_dt, dl_dt]
  \<close>
  The unpacking in the first line raises for a state that does not have exactly
  three components. The quotient \<^verbatim>\<open>(a-mu)/K\<close> is the first thing the second line
  evaluates after \<^verbatim>\<open>(a-mu)*s\<close>, and it raises for \<open>K = 0\<close>. The local names
  \<^verbatim>\<open>di_dt\<close> and \<^verbatim>\<open>dl_dt\<close> are kept as the source has them.
\<close>

definition ode_sys ::
  "real list \<Rightarrow> real \<Rightarrow> real \<Rightarrow> real \<Rightarrow> real \<Rightarrow> real \<Rightarrow> real \<Rightarrow> real \<Rightarrow> error + real list" where
  "ode_sys state t a beta mu alpha sigma K =
     (case state of
        [s, l, i] \<Rightarrow>
          if K = 0 then Inl ZeroDivisionError
          else
            let ds_dt = (a - mu) * s - ((a - mu) / K) * s * (s + i + l) - beta * s * i;
                di_dt = beta * s * i - (sigma + mu + ((a - mu) / K) * (s + l + i)) * l;
                dl_dt = sigma * l - (alpha + mu + ((a - mu) / K) * (s + l + i)) * i
            in Inr [ds_dt, di_dt, dl_dt]
      | _ \<Rightarrow> Inl ValueError)"

subsection \<open>The time grid: \<^verbatim>\<open>numpy.linspace\<close>\<close>

text \<open>
  \<^verbatim>\<open>numpy.linspace(start, stop, num)\<close> is library code. Its documented algorithm, with
  the end point included, is: \<^verbatim>\<open>div = num - 1\<close>, \<^verbatim>\<open>delta = stop - start\<close>,
  \<^verbatim>\<open>y = arange(0, num)\<close>; for \<open>div > 0\<close> the samples are \<^verbatim>\<open>y * (delta / div)\<close>, otherwise
  \<^verbatim>\<open>y * delta\<close>; then \<^verbatim>\<open>y += start\<close>, and for \<open>num > 1\<close> the last sample is overwritten
  with \<^verbatim>\<open>stop\<close>.
\<close>

definition linspace :: "real \<Rightarrow> real \<Rightarrow> nat \<Rightarrow> real list" where
  "linspace start stop num =
     (let divisor = int num - 1;
          delta = stop - start;
          y = map real [0..<num];
          y = (if divisor > 0 then map (\<lambda>v. v * (delta / real_of_int divisor)) y
               else map (\<lambda>v. v * delta) y);
          y = map (\<lambda>v. v + start) y
      in if num > 1 then y[num - 1 := stop] else y)"

subsection \<open>The integrator: \<^verbatim>\<open>scipy.integrate.odeint\<close>\<close>

text \<open>
  The numerical routine behind \<^verbatim>\<open>odeint\<close> (LSODA) is library code and stays a
  parameter of the embedding: a \<open>solver\<close> takes the right-hand side as a function of
  state and time, the initial state and the time grid, and returns either an
  exception or the solution array, one row per grid point. It is a function of its
  arguments: two calls with equal arguments give equal results.

  What \<^verbatim>\<open>odeint(func, y0, t, args)\<close> adds is its calling convention: the right-hand side
  is evaluated as \<^verbatim>\<open>func(y, t, *args)\<close>.
\<close>

type_synonym rhs = "real list \<Rightarrow> real \<Rightarrow> error + real list"

type_synonym solver = "rhs \<Rightarrow> real list \<Rightarrow> real list \<Rightarrow> error + real list list"

definition odeint ::
  "solver \<Rightarrow> (real list \<Rightarrow> real \<Rightarrow> 'args \<Rightarrow> error + real list) \<Rightarrow> real list \<Rightarrow> real list \<Rightarrow> 'args
     \<Rightarrow> error + real list list" where
  "odeint solver func y0 t args = solver (\<lambda>y t'. func y t' args) y0 t"


definition passes_on :: "solver \<Rightarrow> bool" where
  "passes_on solver =
     (\<forall>f y0 ts e. ts \<noteq> [] \<longrightarrow> f y0 (hd ts) = Inl e \<longrightarrow> solver f y0 ts = Inl e)"

text \<open>
  \<^verbatim>\<open>ode_sys(y, t, *args)\<close> for a tuple of six: the components are bound to the
  parameters that follow \<^verbatim>\<open>state, t\<close> in the signature of \<^verbatim>\<open>ode_sys\<close>, by position.
\<close>

definition ode_sys_star ::
  "real list \<Rightarrow> real \<Rightarrow> real \<times> real \<times> real \<times> real \<times> real \<times> real \<Rightarrow> error + real list" where
  "ode_sys_star state t args =
     (case args of (x1, x2, x3, x4, x5, x6) \<Rightarrow> ode_sys state t x1 x2 x3 x4 x5 x6)"

subsection \<open>The chart: plotly figures as objects in a store\<close>

text \<open>
  A figure is a mutable object: \<^verbatim>\<open>go.Figure()\<close> allocates one, \<^verbatim>\<open>add_trace\<close> and
  \<^verbatim>\<open>update_layout\<close> change it in place. The store is the list of the figures allocated
  so far and a reference is an index into it. Python strings are sequences of code
  points; every code point in this program is below 256 and is written as one \<open>char\<close>.
\<close>

record line =
  line_color :: string
  line_width :: int
  line_dash :: "string option"

record scatter =
  scatter_x :: "real list"
  scatter_y :: "real list"
  scatter_name :: string
  scatter_line :: line

record layout =
  layout_title :: "string option"
  layout_xaxis_title :: "string option"
  layout_yaxis_title :: "string option"

record figure =
  figure_data :: "scatter list"
  figure_layout :: layout

type_synonym store = "figure list"

type_synonym ref = nat

definition Figure :: "store \<Rightarrow> ref \<times> store" where
  "Figure h =
     (length h,
      h @ [\<lparr>figure_data = [],
            figure_layout = \<lparr>layout_title = None, layout_xaxis_title = None,
                             layout_yaxis_title = None\<rparr>\<rparr>])"

definition add_trace :: "ref \<Rightarrow> scatter \<Rightarrow> store \<Rightarrow> store" where
  "add_trace fig trace h = h[fig := (h ! fig)\<lparr>figure_data := figure_data (h ! fig) @ [trace]\<rparr>]"

definition update_layout :: "ref \<Rightarrow> string \<Rightarrow> string \<Rightarrow> string \<Rightarrow> store \<Rightarrow> store" where
  "update_layout fig title xaxis_title yaxis_title h =
     h[fig := (h ! fig)\<lparr>figure_layout :=
         (figure_layout (h ! fig))\<lparr>layout_title := Some title,
                                   layout_xaxis_title := Some xaxis_title,
                                   layout_yaxis_title := Some yaxis_title\<rparr>\<rparr>]"

text \<open>
  \<^verbatim>\<open>s,l,i = sol.T\<close>: the transposed array has one row per column of \<^verbatim>\<open>sol\<close>, and the
  unpacking raises unless there are exactly three of them.
\<close>

definition unpack_T :: "real list list \<Rightarrow> error + real list \<times> real list \<times> real list" where
  "unpack_T sol =
     (if list_all (\<lambda>row. length row = 3) sol
      then Inr (map (\<lambda>row. row ! 0) sol, map (\<lambda>row. row ! 1) sol, map (\<lambda>row. row ! 2) sol)
      else Inl ValueError)"

subsection \<open>The orchestrator: \<^verbatim>\<open>gera_grafico\<close> (lines 178--198)\<close>

text \<open>
  \<^verbatim>\<open>
  def gera_grafico(s_init, i_init, l_init, a, beta, mu, alpha, sigma, K):
      t_begin = 0.
      t_end = 70.
      t_nsamples = 10000
      t_eval = np.linspace(t_begin, t_end, t_nsamples)
      sol = odeint(func=ode_sys,
                      y0=[s_init, i_init, l_init],
                      t=t_eval,
                      args=( a, beta, mu, alpha, sigma, K))
      s,l,i = sol.T
      fig = go.Figure()
      fig.add_trace(go.Scatter(x=t_eval, y=s, name='Suscet(i)vel',
                               line=dict(color='#00b400', width=4)))
      fig.add_trace(go.Scatter(x=t_eval, y=l, name ='Latente',
                               line=dict(color='#ff0000', width=4, dash='dot')))
      fig.add_trace(go.Scatter(x=t_eval, y=i, name='Infectado',
                               line=dict(color='#0000ff', width=4, dash='dashdot')))
      fig.update_layout(title='Din(a)mica Modelo SLI',
                         xaxis_title='Tempo (anos)',
                         yaxis_title='Indiv(i)duos')
      return fig
  \<close>
  (where \<^verbatim>\<open>(i)\<close> stands for the letter i with acute accent, code point 0xED, and
  \<^verbatim>\<open>(a)\<close> for the letter a with circumflex, code point 0xE2). The
  parameters keep the names and the order of the source: the second one is called
  \<^verbatim>\<open>i_init\<close> and the third \<^verbatim>\<open>l_init\<close>. The function takes the store and returns it
  with the result, which is the reference of the figure or the exception raised.
  The body is embedded in two parts: \<open>gera_grafico_fig\<close> is the part from
  \<^verbatim>\<open>s,l,i = sol.T\<close> to the end (lines 187--198), \<open>gera_grafico\<close> the part before it
  (lines 179--186) followed by \<open>gera_grafico_fig\<close>.
\<close>

definition gera_grafico_fig :: "real list \<Rightarrow> real list list \<Rightarrow> store \<Rightarrow> (error + ref) \<times> store" where
  "gera_grafico_fig t_eval sol h =
     (case unpack_T sol of
        Inl e \<Rightarrow> (Inl e, h)
      | Inr (s, l, i) \<Rightarrow>
          let (fig, h) = Figure h;
              h = add_trace fig
                    \<lparr>scatter_x = t_eval, scatter_y = s,
                     scatter_name = ''Suscet'' @ [CHR 0xED] @ ''vel'',
                     scatter_line = \<lparr>line_color = ''#00b400'', line_width = 4,
                                     line_dash = None\<rparr>\<rparr> h;
              h = add_trace fig
                    \<lparr>scatter_x = t_eval, scatter_y = l,
                     scatter_name = ''Latente'',
                     scatter_line = \<lparr>line_color = ''#ff0000'', line_width = 4,
                                     line_dash = Some ''dot''\<rparr>\<rparr> h;
              h = add_trace fig
                    \<lparr>scatter_x = t_eval, scatter_y = i,
                     scatter_name = ''Infectado'',
                     scatter_line = \<lparr>line_color = ''#0000ff'', line_width = 4,
                                     line_dash = Some ''dashdot''\<rparr>\<rparr> h;
              h = update_layout fig
                    (''Din'' @ [CHR 0xE2] @ ''mica Modelo SLI'')
                    ''Tempo (anos)''
                    (''Indiv'' @ [CHR 0xED] @ ''duos'') h
          in (Inr fig, h))"

definition gera_grafico ::
  "solver \<Rightarrow> real \<Rightarrow> real \<Rightarrow> real \<Rightarrow> real \<Rightarrow> real \<Rightarrow> real \<Rightarrow> real \<Rightarrow> real \<Rightarrow> real \<Rightarrow> store
     \<Rightarrow> (error + ref) \<times> store" where
  "gera_grafico solver s_init i_init l_init a beta mu alpha sigma K h =
     (let t_begin = 0;
          t_end = 70;
          t_nsamples = 10000;
          t_eval = linspace t_begin t_end t_nsamples
      in case odeint solver ode_sys_star [s_init, i_init, l_init] t_eval
                (a, beta, mu, alpha, sigma, K) of
           Inl e \<Rightarrow> (Inl e, h)
         | Inr sol \<Rightarrow> gera_grafico_fig t_eval sol h)"

text \<open>
  The decorator of \<^verbatim>\<open>gera_grafico\<close> (lines 168--177) lists the inputs of the callback
  by component id, in the order \<^verbatim>\<open>s_init, l_init, i_init, a, beta, mu, alpha, sigma, K\<close>.
  Dash calls the function with the current values of these components as positional
  arguments, in that order. \<open>ui\<close> maps a component id to its current value.
\<close>

definition callback :: "solver \<Rightarrow> (string \<Rightarrow> real) \<Rightarrow> store \<Rightarrow> (error + ref) \<times> store" where
  "callback solver ui h =
     gera_grafico solver (ui ''s_init'') (ui ''l_init'') (ui ''i_init'')
       (ui ''a'') (ui ''beta'') (ui ''mu'') (ui ''alpha'') (ui ''sigma'')
       (ui ''K'') h"

text \<open>
  What a call of the orchestrator delivers to its caller: the exception, or the
  content of the figure that the returned reference denotes in the store after the call.
\<close>

definition outcome :: "(error + ref) \<times> store \<Rightarrow> error + figure" where
  "outcome r = (case r of (Inl e, h) \<Rightarrow> Inl e | (Inr fig, h) \<Rightarrow> Inr (h ! fig))"

subsection \<open>A reference solver\<close>

text \<open>
  The explicit Euler method on the grid is a concrete solver with which the theorems
  about \<open>gera_grafico\<close> are instantiated. It evaluates the right-hand side at every
  grid point but the last and passes on the first exception.
\<close>

fun euler :: solver where
  "euler f y [] = Inr []"
| "euler f y [t] = (case f y t of Inl e \<Rightarrow> Inl e | Inr d \<Rightarrow> Inr [y])"
| "euler f y (t # t' # ts) =
     (case f y t of
        Inl e \<Rightarrow> Inl e
      | Inr d \<Rightarrow>
          (case euler f (map2 (\<lambda>yi di. yi + (t' - t) * di) y d) (t' # ts) of
             Inl e \<Rightarrow> Inl e
           | Inr rows \<Rightarrow> Inr (y # rows)))"

section \<open>Properties of the model\<close>

lemma ode_sys_triple:
  "ode_sys [S, L, I] t a beta mu alpha sigma K =
     (if K = 0 then Inl ZeroDivisionError
      else Inr [(a - mu) * S - ((a - mu) / K) * S * (S + I + L) - beta * S * I,
                beta * S * I - (sigma + mu + ((a - mu) / K) * (S + L + I)) * L,
                sigma * L - (alpha + mu + ((a - mu) / K) * (S + L + I)) * I])"
  by (simp add: ode_sys_def)

text \<open>
  Claim C1. For every state \<open>(S, L, I)\<close>, every time and every parameter set with
  \<open>K \<noteq> 0\<close>, the model returns the triple of the specification's equations, with
  \<open>N = S + L + I\<close>, in the order \<open>(dS/dt, dL/dt, dI/dt)\<close>.
\<close>

theorem ode_sys_equations:
  assumes "K \<noteq> 0"
  shows "ode_sys [S, L, I] t a beta mu alpha sigma K =
           (let N = S + L + I in
            Inr [(a - mu) * S - ((a - mu) / K) * S * N - beta * S * I,
                 beta * S * I - (sigma + mu + ((a - mu) / K) * N) * L,
                 sigma * L - (alpha + mu + ((a - mu) / K) * N) * I])"
proof -
  have "S + I + L = S + L + I" by simp
  with assms show ?thesis by (simp add: ode_sys_triple Let_def)
qed

theorem ode_sys_equations_witness:
  "(2::real) \<noteq> 0 \<and> ode_sys [2, 1, 1] 0 1 3 0 5 7 2 = Inr [-8, -3, 0]"
  using ode_sys_equations [of 2 2 1 1 0 1 3 0 5 7] by (simp add: Let_def)

text \<open>
  Claim C6. For every state, negative components included, every time and every
  parameter set with \<open>K \<noteq> 0\<close>, the model returns a triple and raises nothing; the only
  way for it to raise on a three-component state is \<open>K = 0\<close>. The body of \<^verbatim>\<open>ode_sys\<close>
  assigns to local names only and builds a fresh list, which is why the embedding is a
  function from the arguments to the result, with no store to change.
\<close>

theorem ode_sys_total:
  assumes "K \<noteq> 0"
  shows "(\<exists>dS dL dI. ode_sys [S, L, I] t a beta mu alpha sigma K = Inr [dS, dL, dI]) \<and>
         (\<forall>K'. (\<exists>e. ode_sys [S, L, I] t a beta mu alpha sigma K' = Inl e) \<longleftrightarrow> K' = 0)"
  using assms by (simp add: ode_sys_triple)

theorem ode_sys_total_witness:
  "(2::real) \<noteq> 0 \<and>
   (\<exists>dS dL dI. ode_sys [-2, -1, 1] 0 1 3 0 5 7 2 = Inr [dS, dL, dI]) \<and>
   (\<forall>K'. (\<exists>e. ode_sys [-2, -1, 1] 0 1 3 0 5 7 K' = Inl e) \<longleftrightarrow> K' = 0)"
  using ode_sys_total [of 2 "-2" "-1" 1 0 1 3 0 5 7] by simp

text \<open>
  Claim C7. The model is autonomous: for \<open>K \<noteq> 0\<close> the evaluations at two times
  \<open>t1\<close> and \<open>t2\<close> return the same triple.
\<close>

theorem ode_sys_autonomous:
  assumes "K \<noteq> 0"
  shows "\<exists>d. ode_sys [S, L, I] t1 a beta mu alpha sigma K = Inr d \<and>
             ode_sys [S, L, I] t2 a beta mu alpha sigma K = Inr d"
  using assms by (simp add: ode_sys_triple)

theorem ode_sys_autonomous_witness:
  "(2::real) \<noteq> 0 \<and>
   (\<exists>d. ode_sys [2, 1, 1] 0 1 3 0 5 7 2 = Inr d \<and> ode_sys [2, 1, 1] 70 1 3 0 5 7 2 = Inr d)"
  using ode_sys_autonomous [of 2 2 1 1 0 1 3 0 5 7 70] by simp

text \<open>
  Claim C10. The disease-free subspace is invariant: at a state with \<open>L = 0\<close> and
  \<open>I = 0\<close>, and \<open>K \<noteq> 0\<close>, the latent and the infectious components of the derivative
  are zero and the susceptible one follows the logistic law \<open>(a - mu) * S * (1 - S / K)\<close>.
\<close>

theorem ode_sys_disease_free:
  assumes "K \<noteq> 0"
  shows "ode_sys [S, 0, 0] t a beta mu alpha sigma K = Inr [(a - mu) * S * (1 - S / K), 0, 0]"
  using assms by (simp add: ode_sys_triple field_simps)

theorem ode_sys_disease_free_witness:
  "(2::real) \<noteq> 0 \<and> ode_sys [1, 0, 0] 0 1 3 0 5 7 2 = Inr [1 / 2, 0, 0]"
  using ode_sys_disease_free [of 2 1 0 1 3 0 5 7] by simp

section \<open>Properties of the orchestrator\<close>

subsection \<open>The time grid\<close>

lemma linspace_length: "length (linspace start stop num) = num"
  by (simp add: linspace_def Let_def)

lemma linspace_nonempty: "0 < num \<Longrightarrow> linspace start stop num \<noteq> []"
  using linspace_length [of start stop num] by (cases "linspace start stop num") auto



subsection \<open>The two parts of \<open>gera_grafico\<close>\<close>

lemma gera_grafico_call:
  "gera_grafico solver s_init i_init l_init a beta mu alpha sigma K h =
     (case solver (\<lambda>y t. ode_sys y t a beta mu alpha sigma K) [s_init, i_init, l_init]
             (linspace 0 70 10000) of
        Inl e \<Rightarrow> (Inl e, h)
      | Inr sol \<Rightarrow> gera_grafico_fig (linspace 0 70 10000) sol h)"
  by (simp add: gera_grafico_def odeint_def ode_sys_star_def Let_def)

lemma callback_call:
  "callback solver ui h =
     (case solver (\<lambda>y t. ode_sys y t (ui ''a'') (ui ''beta'') (ui ''mu'') (ui ''alpha'')
                            (ui ''sigma'') (ui ''K''))
             [ui ''s_init'', ui ''l_init'', ui ''i_init''] (linspace 0 70 10000) of
        Inl e \<Rightarrow> (Inl e, h)
      | Inr sol \<Rightarrow> gera_grafico_fig (linspace 0 70 10000) sol h)"
  by (simp add: callback_def gera_grafico_call)

lemma gera_grafico_fig_raises:
  "\<not> list_all (\<lambda>row. length row = 3) sol \<Longrightarrow> gera_grafico_fig t_eval sol h = (Inl ValueError, h)"
  by (simp add: gera_grafico_fig_def unpack_T_def)

lemma gera_grafico_fig_returns:
  "list_all (\<lambda>row. length row = 3) sol \<Longrightarrow>
   gera_grafico_fig t_eval sol h =
     (Inr (length h),
      h @ [\<lparr>figure_data =
              [\<lparr>scatter_x = t_eval, scatter_y = map (\<lambda>row. row ! 0) sol,
                scatter_name = ''Suscet'' @ [CHR 0xED] @ ''vel'',
                scatter_line = \<lparr>line_color = ''#00b400'', line_width = 4, line_dash = None\<rparr>\<rparr>,
               \<lparr>scatter_x = t_eval, scatter_y = map (\<lambda>row. row ! 1) sol,
                scatter_name = ''Latente'',
                scatter_line = \<lparr>line_color = ''#ff0000'', line_width = 4,
                                line_dash = Some ''dot''\<rparr>\<rparr>,
               \<lparr>scatter_x = t_eval, scatter_y = map (\<lambda>row. row ! 2) sol,
                scatter_name = ''Infectado'',
                scatter_line = \<lparr>line_color = ''#0000ff'', line_width = 4,
                                line_dash = Some ''dashdot''\<rparr>\<rparr>],
            figure_layout =
              \<lparr>layout_title = Some (''Din'' @ [CHR 0xE2] @ ''mica Modelo SLI''),
               layout_xaxis_title = Some ''Tempo (anos)'',
               layout_yaxis_title = Some (''Indiv'' @ [CHR 0xED] @ ''duos'')\<rparr>\<rparr>])"
  by (simp add: gera_grafico_fig_def unpack_T_def Figure_def add_trace_def update_layout_def
      Let_def nth_append)

lemma gera_grafico_returns_cases:
  assumes "gera_grafico solver s_init i_init l_init a beta mu alpha sigma K h = (Inr fig, h')"
  obtains sol where
    "solver (\<lambda>y t. ode_sys y t a beta mu alpha sigma K) [s_init, i_init, l_init]
       (linspace 0 70 10000) = Inr sol"
    "list_all (\<lambda>row. length row = 3) sol"
    "gera_grafico_fig (linspace 0 70 10000) sol h = (Inr fig, h')"
proof -
  from assms obtain sol where
    sol: "solver (\<lambda>y t. ode_sys y t a beta mu alpha sigma K) [s_init, i_init, l_init]
            (linspace 0 70 10000) = Inr sol"
    and fig: "gera_grafico_fig (linspace 0 70 10000) sol h = (Inr fig, h')"
    by (auto simp: gera_grafico_call split: sum.splits)
  have "list_all (\<lambda>row. length row = 3) sol"
  proof (rule ccontr)
    assume "\<not> list_all (\<lambda>row. length row = 3) sol"
    from gera_grafico_fig_raises [OF this] fig show False by simp
  qed
  with sol fig that show thesis by blast
qed

subsection \<open>The reference solver\<close>



lemma euler_propagates: "ts \<noteq> [] \<Longrightarrow> f y (hd ts) = Inl e \<Longrightarrow> euler f y ts = Inl e"
  by (cases "(f, y, ts)" rule: euler.cases) auto

lemma passes_on_euler: "passes_on euler"
  unfolding passes_on_def using euler_propagates by blast

lemma euler_returns:
  "(\<forall>y t. length y = 3 \<longrightarrow> (\<exists>d. f y t = Inr d \<and> length d = 3)) \<Longrightarrow> length y = 3 \<Longrightarrow>
   \<exists>sol. euler f y ts = Inr sol \<and> list_all (\<lambda>row. length row = 3) sol"
proof (induction f y ts rule: euler.induct)
  case (1 f y)
  then show ?case by simp
next
  case (2 f y t)
  then obtain d where "f y t = Inr d" by blast
  with "2.prems" show ?case by simp
next
  case (3 f y t t' ts)
  then obtain d where d: "f y t = Inr d" "length d = 3" by blast
  let ?y' = "map2 (\<lambda>yi di. yi + (t' - t) * di) y d"
  have "length ?y' = 3" using d "3.prems" by simp
  with "3.IH" [OF d(1) "3.prems"(1)] obtain sol where
    "euler f ?y' (t' # ts) = Inr sol" "list_all (\<lambda>row. length row = 3) sol" by auto
  with d "3.prems" show ?case by simp
qed

lemma ode_sys_returns3:
  assumes "K \<noteq> 0" and "length y = 3"
  shows "\<exists>d. ode_sys y t a beta mu alpha sigma K = Inr d \<and> length d = 3"
proof -
  from \<open>length y = 3\<close> obtain S L I where "y = [S, L, I]"
    by (auto simp: length_Suc_conv numeral_3_eq_3)
  with \<open>K \<noteq> 0\<close> show ?thesis by (simp add: ode_sys_triple)
qed

lemma euler_ode_sys:
  assumes "K \<noteq> 0"
  shows "\<exists>sol. euler (\<lambda>y t. ode_sys y t a beta mu alpha sigma K) [y1, y2, y3] ts = Inr sol \<and>
               list_all (\<lambda>row. length row = 3) sol"
proof (rule euler_returns)
  show "\<forall>y t. length y = 3 \<longrightarrow>
          (\<exists>d. ode_sys y t a beta mu alpha sigma K = Inr d \<and> length d = 3)"
    using assms by (simp add: ode_sys_returns3)
  show "length [y1, y2, y3] = 3" by simp
qed

lemma gera_grafico_euler:
  assumes "K \<noteq> 0"
  shows "\<exists>fig h'. gera_grafico euler s_init i_init l_init a beta mu alpha sigma K h = (Inr fig, h')"
proof -
  from euler_ode_sys [OF assms] obtain sol where
    "euler (\<lambda>y t. ode_sys y t a beta mu alpha sigma K) [s_init, i_init, l_init]
       (linspace 0 70 10000) = Inr sol"
    "list_all (\<lambda>row. length row = 3) sol" by blast
  then show ?thesis by (simp add: gera_grafico_call gera_grafico_fig_returns)
qed

subsection \<open>What is handed to the integrator\<close>

text \<open>
  Claim C2. For every nine input values the initial state handed to the integrator is
  the list of the values of the components \<^verbatim>\<open>s_init\<close>, \<^verbatim>\<open>l_init\<close>, \<^verbatim>\<open>i_init\<close>, in this
  order, which is the order \<open>(S, L, I)\<close> in which \<open>ode_sys\<close> unpacks a state: whatever the
  solver, the callback is the solver applied to that initial state and the fixed grid,
  followed by the construction of the figure.
\<close>

theorem callback_initial_state:
  "\<exists>f. \<forall>solver h.
     callback solver ui h =
       (case solver f [ui ''s_init'', ui ''l_init'', ui ''i_init''] (linspace 0 70 10000) of
          Inl e \<Rightarrow> (Inl e, h)
        | Inr sol \<Rightarrow> gera_grafico_fig (linspace 0 70 10000) sol h)"
  using callback_call [of _ ui] by blast

theorem callback_initial_state_witness:
  "\<exists>f. \<forall>solver h.
     callback solver (\<lambda>id. if id = ''l_init'' then 1 else 2) h =
       (case solver f [2, 1, 2] (linspace 0 70 10000) of
          Inl e \<Rightarrow> (Inl e, h)
        | Inr sol \<Rightarrow> gera_grafico_fig (linspace 0 70 10000) sol h)"
  using callback_initial_state [of "\<lambda>id. if id = ''l_init'' then 1 else 2"] by simp

text \<open>
  Claim C3. On every invocation the right-hand side handed to the integrator is
  \<open>ode_sys\<close> with the values of the components \<^verbatim>\<open>a, beta, mu, alpha, sigma, K\<close> in the
  parameters of the same names: the tuple \<^verbatim>\<open>args\<close> is bound by position to the
  signature of \<open>ode_sys\<close>.
\<close>

theorem callback_rate_binding:
  "\<exists>y0. \<forall>solver h.
     callback solver ui h =
       (case solver (\<lambda>y t. ode_sys y t (ui ''a'') (ui ''beta'') (ui ''mu'') (ui ''alpha'')
                              (ui ''sigma'') (ui ''K''))
               y0 (linspace 0 70 10000) of
          Inl e \<Rightarrow> (Inl e, h)
        | Inr sol \<Rightarrow> gera_grafico_fig (linspace 0 70 10000) sol h)"
  using callback_call [of _ ui] by blast

theorem callback_rate_binding_witness:
  "\<exists>y0. \<forall>solver h.
     callback solver (\<lambda>id. if id = ''K'' then 2 else if id = ''mu'' then 0 else 1) h =
       (case solver (\<lambda>y t. ode_sys y t 1 1 0 1 1 2) y0 (linspace 0 70 10000) of
          Inl e \<Rightarrow> (Inl e, h)
        | Inr sol \<Rightarrow> gera_grafico_fig (linspace 0 70 10000) sol h)"
  using callback_rate_binding [of "\<lambda>id. if id = ''K'' then 2 else if id = ''mu'' then 0 else 1"]
  by simp

subsection \<open>The grid and the series\<close>



text \<open>
  Claim C8. When the call returns a figure, its three series are the columns 0, 1 and 2
  of the solver's output (the components \<open>S\<close>, \<open>L\<close>, \<open>I\<close> of the state), named
  Suscetivel, Latente and Infectado (with the accents of the source), each with its fixed
  colour, width and dash style; the axis titles and the chart title are fixed.
\<close>

theorem series_metadata:
  assumes run: "gera_grafico solver s_init i_init l_init a beta mu alpha sigma K h = (Inr fig, h')"
  shows "\<exists>sol. solver (\<lambda>y t. ode_sys y t a beta mu alpha sigma K) [s_init, i_init, l_init]
                  (linspace 0 70 10000) = Inr sol \<and>
           h' ! fig =
             \<lparr>figure_data =
                [\<lparr>scatter_x = linspace 0 70 10000, scatter_y = map (\<lambda>row. row ! 0) sol,
                  scatter_name = ''Suscet'' @ [CHR 0xED] @ ''vel'',
                  scatter_line = \<lparr>line_color = ''#00b400'', line_width = 4,
                                  line_dash = None\<rparr>\<rparr>,
                 \<lparr>scatter_x = linspace 0 70 10000, scatter_y = map (\<lambda>row. row ! 1) sol,
                  scatter_name = ''Latente'',
                  scatter_line = \<lparr>line_color = ''#ff0000'', line_width = 4,
                                  line_dash = Some ''dot''\<rparr>\<rparr>,
                 \<lparr>scatter_x = linspace 0 70 10000, scatter_y = map (\<lambda>row. row ! 2) sol,
                  scatter_name = ''Infectado'',
                  scatter_line = \<lparr>line_color = ''#0000ff'', line_width = 4,
                                  line_dash = Some ''dashdot''\<rparr>\<rparr>],
              figure_layout =
                \<lparr>layout_title = Some (''Din'' @ [CHR 0xE2] @ ''mica Modelo SLI''),
                 layout_xaxis_title = Some ''Tempo (anos)'',
                 layout_yaxis_title = Some (''Indiv'' @ [CHR 0xED] @ ''duos'')\<rparr>\<rparr>"
proof -
  from run obtain sol where
    sol: "solver (\<lambda>y t. ode_sys y t a beta mu alpha sigma K) [s_init, i_init, l_init]
            (linspace 0 70 10000) = Inr sol"
    and rows: "list_all (\<lambda>row. length row = 3) sol"
    and fig: "gera_grafico_fig (linspace 0 70 10000) sol h = (Inr fig, h')"
    by (rule gera_grafico_returns_cases)
  from fig gera_grafico_fig_returns [OF rows, of "linspace 0 70 10000" h] sol
  show ?thesis by auto
qed

theorem series_metadata_witness:
  "\<exists>fig h'.
     gera_grafico euler (5 / 2) (1 / 10) (1 / 10) 1 77 (1 / 2) 73 13 2 [] = (Inr fig, h') \<and>
     (\<exists>sol. euler (\<lambda>y t. ode_sys y t 1 77 (1 / 2) 73 13 2) [5 / 2, 1 / 10, 1 / 10]
              (linspace 0 70 10000) = Inr sol \<and>
        h' ! fig =
          \<lparr>figure_data =
             [\<lparr>scatter_x = linspace 0 70 10000, scatter_y = map (\<lambda>row. row ! 0) sol,
               scatter_name = ''Suscet'' @ [CHR 0xED] @ ''vel'',
               scatter_line = \<lparr>line_color = ''#00b400'', line_width = 4,
                               line_dash = None\<rparr>\<rparr>,
              \<lparr>scatter_x = linspace 0 70 10000, scatter_y = map (\<lambda>row. row ! 1) sol,
               scatter_name = ''Latente'',
               scatter_line = \<lparr>line_color = ''#ff0000'', line_width = 4,
                               line_dash = Some ''dot''\<rparr>\<rparr>,
              \<lparr>scatter_x = linspace 0 70 10000, scatter_y = map (\<lambda>row. row ! 2) sol,
               scatter_name = ''Infectado'',
               scatter_line = \<lparr>line_color = ''#0000ff'', line_width = 4,
                               line_dash = Some ''dashdot''\<rparr>\<rparr>],
           figure_layout =
             \<lparr>layout_title = Some (''Din'' @ [CHR 0xE2] @ ''mica Modelo SLI''),
              layout_xaxis_title = Some ''Tempo (anos)'',
              layout_yaxis_title = Some (''Indiv'' @ [CHR 0xED] @ ''duos'')\<rparr>\<rparr>)"
proof -
  obtain fig h' where
    run: "gera_grafico euler (5 / 2) (1 / 10) (1 / 10) 1 77 (1 / 2) 73 13 2 [] = (Inr fig, h')"
    using gera_grafico_euler [of 2 "5 / 2" "1 / 10" "1 / 10" 1 77 "1 / 2" 73 13 "[]"] by auto
  show ?thesis
    by (rule exI [of _ fig], rule exI [of _ h'], rule conjI [OF run series_metadata [OF run]])
qed

subsection \<open>Determinism\<close>

text \<open>
  Claim C5. What a call delivers does not depend on the store it starts from, and two
  calls in a row with the same nine inputs deliver the same: the same exception, or
  two figures of equal content. The second call leaves the figure of the first one
  and every older object as they were. The solver is a function of its arguments.
\<close>

theorem gera_grafico_deterministic:
  "outcome (gera_grafico solver s_init i_init l_init a beta mu alpha sigma K h) =
     outcome (gera_grafico solver s_init i_init l_init a beta mu alpha sigma K h') \<and>
   (case gera_grafico solver s_init i_init l_init a beta mu alpha sigma K h of
      (r1, h1) \<Rightarrow>
        (case gera_grafico solver s_init i_init l_init a beta mu alpha sigma K h1 of
           (r2, h2) \<Rightarrow>
             outcome (r2, h2) = outcome (r1, h1) \<and>
             outcome (r1, h2) = outcome (r1, h1) \<and>
             take (length h) h2 = h))"
proof (cases "solver (\<lambda>y t. ode_sys y t a beta mu alpha sigma K) [s_init, i_init, l_init]
                (linspace 0 70 10000)")
  case (Inl e)
  then show ?thesis by (simp add: gera_grafico_call outcome_def)
next
  case (Inr sol)
  show ?thesis
  proof (cases "list_all (\<lambda>row. length row = 3) sol")
    case True
    with Inr show ?thesis
      by (simp add: gera_grafico_call gera_grafico_fig_returns outcome_def nth_append)
  next
    case False
    with Inr show ?thesis
      by (simp add: gera_grafico_call gera_grafico_fig_raises outcome_def)
  qed
qed

theorem gera_grafico_deterministic_witness:
  "outcome (gera_grafico euler (5 / 2) (1 / 10) (1 / 10) 1 77 (1 / 2) 73 13 2 []) =
     outcome (gera_grafico euler (5 / 2) (1 / 10) (1 / 10) 1 77 (1 / 2) 73 13 2
       (snd (gera_grafico euler (5 / 2) (1 / 10) (1 / 10) 1 77 (1 / 2) 73 13 2 [])))"
  using gera_grafico_deterministic [of euler "5 / 2" "1 / 10" "1 / 10" 1 77 "1 / 2" 73 13 2 "[]"
      "snd (gera_grafico euler (5 / 2) (1 / 10) (1 / 10) 1 77 (1 / 2) 73 13 2 [])"]
  by (rule conjunct1)

subsection \<open>No validation of the parameters\<close>

text \<open>
  Claim C9. Neither function checks its parameters. For all nine inputs, every store
  and every solver, the orchestrator is the call of the solver on the right-hand side
  with the rates as given, followed by the construction of the figure: no input makes it
  raise or return before that call, and it raises nothing of its own. On a
  three-component state the model raises \<open>ZeroDivisionError\<close> for \<open>K = 0\<close> and returns
  the equations for every other \<open>K\<close>, whatever the sign of the rates. So with \<open>K = 0\<close>
  the call ends with that \<open>ZeroDivisionError\<close> as soon as the solver passes on what the
  right-hand side raises at the initial point.
\<close>

theorem no_parameter_validation:
  "gera_grafico solver s_init i_init l_init a beta mu alpha sigma K h =
     (case solver (\<lambda>y t. ode_sys y t a beta mu alpha sigma K) [s_init, i_init, l_init]
             (linspace 0 70 10000) of
        Inl e \<Rightarrow> (Inl e, h)
      | Inr sol \<Rightarrow> gera_grafico_fig (linspace 0 70 10000) sol h) \<and>
   ode_sys [S, L, I] t a beta mu alpha sigma K =
     (if K = 0 then Inl ZeroDivisionError
      else Inr [(a - mu) * S - ((a - mu) / K) * S * (S + L + I) - beta * S * I,
                beta * S * I - (sigma + mu + ((a - mu) / K) * (S + L + I)) * L,
                sigma * L - (alpha + mu + ((a - mu) / K) * (S + L + I)) * I]) \<and>
   (passes_on solver \<longrightarrow>
      gera_grafico solver s_init i_init l_init a beta mu alpha sigma 0 h =
        (Inl ZeroDivisionError, h))"
proof (intro conjI impI)
  show "gera_grafico solver s_init i_init l_init a beta mu alpha sigma K h =
     (case solver (\<lambda>y t. ode_sys y t a beta mu alpha sigma K) [s_init, i_init, l_init]
             (linspace 0 70 10000) of
        Inl e \<Rightarrow> (Inl e, h)
      | Inr sol \<Rightarrow> gera_grafico_fig (linspace 0 70 10000) sol h)"
    by (rule gera_grafico_call)
next
  have "S + I + L = S + L + I" by simp
  then show "ode_sys [S, L, I] t a beta mu alpha sigma K =
     (if K = 0 then Inl ZeroDivisionError
      else Inr [(a - mu) * S - ((a - mu) / K) * S * (S + L + I) - beta * S * I,
                beta * S * I - (sigma + mu + ((a - mu) / K) * (S + L + I)) * L,
                sigma * L - (alpha + mu + ((a - mu) / K) * (S + L + I)) * I])"
    by (simp add: ode_sys_triple)
next
  assume passes: "passes_on solver"
  let ?f = "\<lambda>y t. ode_sys y t a beta mu alpha sigma 0"
  have "linspace 0 70 10000 \<noteq> []"
    by (rule linspace_nonempty) simp
  moreover have "?f [s_init, i_init, l_init] (hd (linspace 0 70 10000)) = Inl ZeroDivisionError"
    by (simp add: ode_sys_triple)
  ultimately have "solver ?f [s_init, i_init, l_init] (linspace 0 70 10000) = Inl ZeroDivisionError"
    using passes [unfolded passes_on_def, rule_format, of "linspace 0 70 10000" ?f
        "[s_init, i_init, l_init]" ZeroDivisionError] by simp
  then show "gera_grafico solver s_init i_init l_init a beta mu alpha sigma 0 h =
        (Inl ZeroDivisionError, h)"
    by (simp add: gera_grafico_call)
qed

text \<open>
  At concrete inputs: with the reference solver and \<open>K = 0\<close> the call ends with
  \<open>ZeroDivisionError\<close>; with a solver that never evaluates the right-hand side and
  returns no rows, the call with \<open>K = 0\<close> and negative rates returns a figure; the
  model evaluates the equations at negative rates.
\<close>

theorem no_parameter_validation_witness:
  "passes_on euler \<and>
   gera_grafico euler (5 / 2) (1 / 10) (1 / 10) 1 77 (1 / 2) 73 13 0 [] =
     (Inl ZeroDivisionError, []) \<and>
   fst (gera_grafico (\<lambda>f y0 ts. Inr []) 1 1 1 (- 1) (- 1) (- 1) (- 1) (- 1) 0 []) = Inr 0 \<and>
   ode_sys [5 / 2, 1 / 10, 1 / 10] 0 1 77 (1 / 2) 73 13 0 = Inl ZeroDivisionError \<and>
   ode_sys [2, 1, 1] 0 (- 1) (- 3) 0 (- 5) (- 7) 2 = Inr [8, 3, 0]"
proof -
  have passes: "passes_on euler" by (rule passes_on_euler)
  have raises:
    "gera_grafico euler (5 / 2) (1 / 10) (1 / 10) 1 77 (1 / 2) 73 13 0 [] =
       (Inl ZeroDivisionError, [])"
    using no_parameter_validation [of euler "5 / 2" "1 / 10" "1 / 10" 1 77 "1 / 2" 73 13 0 "[]"
        0 0 0 0] passes by blast
  have "gera_grafico (\<lambda>f y0 ts. Inr []) 1 1 1 (- 1) (- 1) (- 1) (- 1) (- 1) 0 [] =
          gera_grafico_fig (linspace 0 70 10000) [] []"
    using no_parameter_validation [of "\<lambda>f y0 ts. Inr []" 1 1 1 "- 1" "- 1" "- 1" "- 1" "- 1" 0
        "[]" 0 0 0 0] by simp
  then have nocheck:
    "fst (gera_grafico (\<lambda>f y0 ts. Inr []) 1 1 1 (- 1) (- 1) (- 1) (- 1) (- 1) 0 []) = Inr 0"
    by (simp add: gera_grafico_fig_returns)
  have zero: "ode_sys [5 / 2, 1 / 10, 1 / 10] 0 1 77 (1 / 2) 73 13 0 = Inl ZeroDivisionError"
    using no_parameter_validation [of euler 0 0 0 1 77 "1 / 2" 73 13 0 "[]"
        "5 / 2" "1 / 10" "1 / 10" 0] by simp
  have negative: "ode_sys [2, 1, 1] 0 (- 1) (- 3) 0 (- 5) (- 7) 2 = Inr [8, 3, 0]"
    using no_parameter_validation [of euler 0 0 0 "- 1" "- 3" 0 "- 5" "- 7" 2 "[]" 2 1 1 0]
    by simp
  from passes raises nocheck zero negative show ?thesis by simp
qed

end
